theory Spec2Isabelle
  imports Complex_Main
begin

section \<open>The notebook's data\<close>

text \<open>
  The notebook \<^verbatim>\<open>resistive-casing.ipynb\<close> keeps three globals that
  \<^verbatim>\<open>create_gaps_model\<close> reads: the mesh, the casing model and the conductivity
  array \<^verbatim>\<open>sigma = model.sigma(mesh)\<close>. Of the mesh only the column
  \<^verbatim>\<open>mesh.gridCC[:, 2]\<close> (the depth of every cell centre) is used, and of the model only
  the boolean mask \<^verbatim>\<open>model.ind_casing(mesh)\<close>. Both have one entry per mesh cell and are
  computed by the external packages \<^verbatim>\<open>discretize\<close> and \<^verbatim>\<open>casingSimulations\<close>, so
  they are data here: a cell is its depth together with its bit of the casing mask.
  Floats are modelled as reals; the function only compares, copies and stores them.
\<close>

record cell =
  gridCC_z :: real
  ind_casing :: bool

text \<open>
  NumPy arrays are mutable objects that names refer to. The store is the list of all
  arrays allocated so far; an address is an index into it, and allocation appends.
\<close>

type_synonym addr = nat
type_synonym heap = "real list list"

record notebook =
  mesh :: "cell list"
  sigma :: addr

text \<open>Cell 5: \<^verbatim>\<open>sigma_inside = 1\<close>, the default of \<^verbatim>\<open>sigma_gap\<close>, bound when the
  \<^verbatim>\<open>def\<close> is executed.\<close>

definition sigma_inside :: real where
  "sigma_inside = 1"

text \<open>
  The exceptions the function can end with: its own \<^verbatim>\<open>raise Exception(...)\<close>, and the
  ones NumPy raises underneath it (a ragged nested sequence given to \<^verbatim>\<open>np.array\<close>, a
  reduction of an empty array, a non-empty boolean index whose length differs from the
  array's).
  A NumPy older than 1.24 builds an object array from a ragged list instead of raising
  there; the model follows the current behaviour.
\<close>

datatype error =
  GapLength "real list"
  | InhomogeneousShape
  | ZeroSizeReduction
  | BooleanIndexShape

section \<open>NumPy operations used by the function\<close>

text \<open>\<^verbatim>\<open>np.array(rows)\<close> for a list of tuples of numbers. Only \<^verbatim>\<open>.max()\<close> and
  \<^verbatim>\<open>.min()\<close> of the result are taken, so the array is kept flattened.\<close>

definition np_array :: "real list list \<Rightarrow> error + real list" where
  "np_array rows =
     (if list_all (\<lambda>r. length r = length (hd rows)) rows then Inr (concat rows)
      else Inl InhomogeneousShape)"

fun amax :: "real list \<Rightarrow> error + real" where
  "amax [] = Inl ZeroSizeReduction"
| "amax (x # xs) = Inr (fold max xs x)"

fun amin :: "real list \<Rightarrow> error + real" where
  "amin [] = Inl ZeroSizeReduction"
| "amin (x # xs) = Inr (fold min xs x)"

text \<open>\<^verbatim>\<open>model.ind_casing(mesh) & (mesh.gridCC[:, 2] <= hi) & (mesh.gridCC[:, 2] >= lo)\<close>\<close>

definition indices_gap :: "cell list \<Rightarrow> real \<Rightarrow> real \<Rightarrow> bool list" where
  "indices_gap m hi lo = map (\<lambda>c. ind_casing c \<and> gridCC_z c \<le> hi \<and> gridCC_z c \<ge> lo) m"

text \<open>\<^verbatim>\<open>xs[mask] = v\<close> with a boolean mask. NumPy accepts a mask of length zero
  against any array and writes nothing; any other mask must be as long as the array.\<close>

definition setitem_mask :: "real list \<Rightarrow> bool list \<Rightarrow> real \<Rightarrow> error + real list" where
  "setitem_mask xs ms v =
     (if ms = [] then Inr xs
      else if length ms \<noteq> length xs then Inl BooleanIndexShape
      else Inr (map2 (\<lambda>b x. if b then v else x) ms xs))"

text \<open>\<^verbatim>\<open>xs.copy()\<close>: a fresh array with the same contents.\<close>

definition copy :: "addr \<Rightarrow> heap \<Rightarrow> addr \<times> heap" where
  "copy a h = (length h, h @ [h ! a])"

section \<open>create\_gaps\_model\<close>

text \<open>
  The body of \<^verbatim>\<open>for gap in gaps:\<close>. The fifth argument is the part of \<^verbatim>\<open>gaps\<close> still
  to be visited; the second is the whole list, which the statement
  \<^verbatim>\<open>gap = np.array(gaps)\<close> reads in every round. The array at address \<open>a\<close> is
  \<^verbatim>\<open>sigma_gaps\<close>. The result is the exception raised, if any, and the store.
\<close>

fun gaps_loop ::
  "cell list \<Rightarrow> real list list \<Rightarrow> real \<Rightarrow> addr \<Rightarrow> real list list \<Rightarrow> heap \<Rightarrow> error option \<times> heap"
where
  "gaps_loop m gaps sigma_gap a [] h = (None, h)"
| "gaps_loop m gaps sigma_gap a (gap # rest) h =
     (if length gap \<noteq> 2 then (Some (GapLength gap), h)
      else case np_array gaps of
        Inl e \<Rightarrow> (Some e, h)
      | Inr arr \<Rightarrow>
          (case amax arr of
            Inl e \<Rightarrow> (Some e, h)
          | Inr hi \<Rightarrow>
              (case amin arr of
                Inl e \<Rightarrow> (Some e, h)
              | Inr lo \<Rightarrow>
                  (case setitem_mask (h ! a) (indices_gap m hi lo) sigma_gap of
                    Inl e \<Rightarrow> (Some e, h)
                  | Inr xs \<Rightarrow> gaps_loop m gaps sigma_gap a rest (h[a := xs])))))"

text \<open>
  \<^verbatim>\<open>def create_gaps_model(gaps, sigma_gap=sigma_inside)\<close>. An omitted \<^verbatim>\<open>sigma_gap\<close> is
  \<open>None\<close>. The result is the address of the returned array, or the exception, together
  with the store after the call.
\<close>

definition create_gaps_model ::
  "notebook \<Rightarrow> real list list \<Rightarrow> real option \<Rightarrow> heap \<Rightarrow> (error + addr) \<times> heap"
where
  "create_gaps_model nb gaps sigma_gap h =
     (let sg = (case sigma_gap of None \<Rightarrow> sigma_inside | Some v \<Rightarrow> v);
          (sigma_gaps, h1) = copy (sigma nb) h;
          (r, h2) = gaps_loop (mesh nb) gaps sg sigma_gaps gaps h1
      in case r of Some e \<Rightarrow> (Inl e, h2) | None \<Rightarrow> (Inr sigma_gaps, h2))"

section \<open>What one round of the loop writes\<close>

text \<open>The value \<^verbatim>\<open>sigma_gap\<close> has inside the body: the argument, or the default.\<close>

definition override_of :: "real option \<Rightarrow> real" where
  "override_of sigma_gap = (case sigma_gap of None \<Rightarrow> sigma_inside | Some v \<Rightarrow> v)"

text \<open>The array after \<^verbatim>\<open>sigma_gaps[indices_gap] = sigma_gap\<close> when the shapes agree:
  \<open>v\<close> at the casing cells whose depth is between \<open>lo\<close> and \<open>hi\<close>, the old value
  elsewhere.\<close>

definition overwrite :: "cell list \<Rightarrow> real \<Rightarrow> real \<Rightarrow> real \<Rightarrow> real list \<Rightarrow> real list" where
  "overwrite m hi lo v xs = map2 (\<lambda>b x. if b then v else x) (indices_gap m hi lo) xs"

section \<open>Region classification\<close>

text \<open>Modelled from the spec: the four regions of the conductivity assignment. The
  classification itself is done by \<^verbatim>\<open>model.sigma(mesh)\<close> and \<^verbatim>\<open>model.ind_casing(mesh)\<close>
  of the package \<^verbatim>\<open>casingSimulations\<close>, whose code is not part of the notebook.\<close>

datatype region = Air | CasingWall | CasingInterior | Background

text \<open>Modelled from the spec: \<^verbatim>\<open>CasingGeometry\<close>, the radii of the casing wall and the
  depth range of the casing.\<close>

record casing_geometry =
  casing_inner_radius :: real
  casing_outer_radius :: real
  casing_top_z :: real
  casing_bottom_z :: real

text \<open>Modelled from the spec: a sample point, three coordinates with \<open>z\<close> positive up.\<close>

record point =
  px :: real
  py :: real
  pz :: real

text \<open>Modelled from the spec: the horizontal radius \<^verbatim>\<open>r = sqrt(x^2 + y^2)\<close>.\<close>

definition radius :: "point \<Rightarrow> real" where
  "radius p = sqrt ((px p)\<^sup>2 + (py p)\<^sup>2)"

text \<open>Modelled from the spec: the depth range \<^verbatim>\<open>casing_bottom_z <= z <= casing_top_z\<close>.\<close>

definition in_depth_range :: "casing_geometry \<Rightarrow> point \<Rightarrow> bool" where
  "in_depth_range g p = (casing_bottom_z g \<le> pz p \<and> pz p \<le> casing_top_z g)"

text \<open>Modelled from the spec: \<^verbatim>\<open>region_of\<close>. Air is \<open>z > 0\<close> whatever the radius; the
  wall is \<^verbatim>\<open>casing_inner_radius <= r < casing_outer_radius\<close> within the depth range; the
  interior is \<^verbatim>\<open>r < casing_inner_radius\<close> within the depth range; the background is
  everything else.\<close>

definition region_of :: "casing_geometry \<Rightarrow> point \<Rightarrow> region" where
  "region_of g p =
     (if pz p > 0 then Air
      else if casing_inner_radius g \<le> radius p \<and> radius p < casing_outer_radius g \<and>
              in_depth_range g p
        then CasingWall
      else if radius p < casing_inner_radius g \<and> in_depth_range g p then CasingInterior
      else Background)"

text \<open>Modelled from the spec: \<^verbatim>\<open>ConductivityAssignment\<close>, one scalar conductivity for
  each of the four regions (\<^verbatim>\<open>sigma_air\<close>, \<^verbatim>\<open>sigma_casing\<close>, \<^verbatim>\<open>sigma_inside\<close>,
  \<^verbatim>\<open>sigma_back\<close>).\<close>

record conductivity_assignment =
  sigma_air :: real
  sigma_casing :: real
  sigma_inside_a :: real
  sigma_back :: real

text \<open>Modelled from the spec: the assignment as a mapping from regions to scalars.\<close>

fun assigned :: "conductivity_assignment \<Rightarrow> region \<Rightarrow> real" where
  "assigned asg Air = sigma_air asg"
| "assigned asg CasingWall = sigma_casing asg"
| "assigned asg CasingInterior = sigma_inside_a asg"
| "assigned asg Background = sigma_back asg"

text \<open>Modelled from the spec: \<^verbatim>\<open>conductivity(point)\<close> returns the assigned scalar for
  \<^verbatim>\<open>region_of(point)\<close>.\<close>

definition conductivity :: "casing_geometry \<Rightarrow> conductivity_assignment \<Rightarrow> point \<Rightarrow> real" where
  "conductivity g asg p = assigned asg (region_of g p)"

text \<open>Modelled from the spec: \<^verbatim>\<open>build_field(points)\<close> applies \<^verbatim>\<open>conductivity\<close>
  elementwise, in the order of the points; each output field is a fresh sequence, here
  a new array of the store.\<close>

definition build_field ::
  "casing_geometry \<Rightarrow> conductivity_assignment \<Rightarrow> point list \<Rightarrow> heap \<Rightarrow> addr \<times> heap"
where
  "build_field g asg points h = (length h, h @ [map (conductivity g asg) points])"

section \<open>The function in closed form\<close>

lemma amax_Max: "xs \<noteq> [] \<Longrightarrow> amax xs = Inr (Max (set xs))"
  by (cases xs) (simp_all add: Max.set_eq_fold [symmetric])

lemma amin_Min: "xs \<noteq> [] \<Longrightarrow> amin xs = Inr (Min (set xs))"
  by (cases xs) (simp_all add: Min.set_eq_fold [symmetric])

lemma length_indices_gap: "length (indices_gap m hi lo) = length m"
  by (simp add: indices_gap_def)

lemma length_overwrite: "length (overwrite m hi lo v xs) = min (length m) (length xs)"
  by (simp add: overwrite_def length_indices_gap)

lemma overwrite_nth:
  "i < length m \<Longrightarrow> i < length xs \<Longrightarrow>
   overwrite m hi lo v xs ! i =
     (if ind_casing (m ! i) \<and> lo \<le> gridCC_z (m ! i) \<and> gridCC_z (m ! i) \<le> hi then v
      else xs ! i)"
  by (auto simp add: overwrite_def indices_gap_def)

text \<open>Every round writes the same cells with the same value, so a second round changes
  nothing.\<close>

lemma overwrite_idem:
  "length xs = length m \<Longrightarrow>
   overwrite m hi lo v (overwrite m hi lo v xs) = overwrite m hi lo v xs"
  by (rule nth_equalityI) (simp_all add: length_overwrite overwrite_nth)

lemma setitem_mask_overwrite:
  "length xs = length m \<Longrightarrow>
   setitem_mask xs (indices_gap m hi lo) v = Inr (overwrite m hi lo v xs)"
  by (cases m) (simp_all add: setitem_mask_def overwrite_def indices_gap_def)

lemma setitem_mask_shape:
  "m \<noteq> [] \<Longrightarrow> length xs \<noteq> length m \<Longrightarrow>
   setitem_mask xs (indices_gap m hi lo) v = Inl BooleanIndexShape"
  by (simp add: setitem_mask_def indices_gap_def)

lemma setitem_mask_no_cells: "setitem_mask xs (indices_gap [] hi lo) v = Inr xs"
  by (simp add: setitem_mask_def indices_gap_def)

lemma np_array_pairs:
  "list_all (\<lambda>g. length g = 2) gaps \<Longrightarrow> np_array gaps = Inr (concat gaps)"
  by (cases gaps) (auto simp add: np_array_def list_all_iff)

lemma np_array_ragged:
  "gaps \<noteq> [] \<Longrightarrow> length (hd gaps) = 2 \<Longrightarrow> \<not> list_all (\<lambda>g. length g = 2) gaps \<Longrightarrow>
   np_array gaps = Inl InhomogeneousShape"
  by (simp add: np_array_def)

lemma concat_pairs_nonempty:
  "gaps \<noteq> [] \<Longrightarrow> list_all (\<lambda>g. length g = 2) gaps \<Longrightarrow> concat gaps \<noteq> []"
  by (cases gaps) auto

text \<open>The loop over a list of pairs, once the bounds taken from the whole list are
  known: no exception, and one overwrite however many rounds there are.\<close>

lemma gaps_loop_pairs:
  assumes "np_array gaps = Inr arr" and "amax arr = Inr hi" and "amin arr = Inr lo"
  shows "list_all (\<lambda>g. length g = 2) rest \<Longrightarrow> a < length h \<Longrightarrow> length (h ! a) = length m \<Longrightarrow>
    gaps_loop m gaps v a rest h =
      (None, if rest = [] then h else h[a := overwrite m hi lo v (h ! a)])"
proof (induction rest arbitrary: h)
  case Nil
  then show ?case by simp
next
  case (Cons gap rest)
  let ?h1 = "h[a := overwrite m hi lo v (h ! a)]"
  have step: "gaps_loop m gaps v a (gap # rest) h = gaps_loop m gaps v a rest ?h1"
    using Cons.prems assms by (simp add: setitem_mask_overwrite)
  have h1: "a < length ?h1" "?h1 ! a = overwrite m hi lo v (h ! a)" "length (?h1 ! a) = length m"
    using Cons.prems by (simp_all add: length_overwrite)
  have "gaps_loop m gaps v a rest ?h1 =
      (None, if rest = [] then ?h1 else ?h1[a := overwrite m hi lo v (?h1 ! a)])"
    using Cons.prems h1 by (intro Cons.IH) simp_all
  also have "(if rest = [] then ?h1 else ?h1[a := overwrite m hi lo v (?h1 ! a)]) = ?h1"
    using Cons.prems by (simp add: overwrite_idem)
  finally show ?case using step by simp
qed

text \<open>On a mesh without cells every round writes nothing.\<close>

lemma gaps_loop_no_cells:
  assumes "np_array gaps = Inr arr" and "amax arr = Inr hi" and "amin arr = Inr lo"
  shows "list_all (\<lambda>g. length g = 2) rest \<Longrightarrow> gaps_loop [] gaps v a rest h = (None, h)"
  using assms by (induction rest) (simp_all add: setitem_mask_no_cells)

lemma gaps_Min_le: "[z1, z2] \<in> set gaps \<Longrightarrow> Min (set (concat gaps)) \<le> min z1 z2"
  by (intro Min_le) (auto simp add: min_def intro!: bexI [of _ "[z1, z2]"])

lemma gaps_Max_ge: "[z1, z2] \<in> set gaps \<Longrightarrow> max z1 z2 \<le> Max (set (concat gaps))"
  by (intro Max_ge) (auto simp add: max_def intro!: bexI [of _ "[z1, z2]"])

text \<open>All the ways a call can go. The bounds of the overwrite are the largest and the
  smallest number of the whole list of gaps.\<close>

lemma create_gaps_model_eq:
  "create_gaps_model nb gaps sigma_gap h =
     (if gaps = [] then (Inr (length h), h @ [h ! sigma nb])
      else if length (hd gaps) \<noteq> 2 then (Inl (GapLength (hd gaps)), h @ [h ! sigma nb])
      else if \<not> list_all (\<lambda>g. length g = 2) gaps
        then (Inl InhomogeneousShape, h @ [h ! sigma nb])
      else if mesh nb = [] then (Inr (length h), h @ [h ! sigma nb])
      else if length (h ! sigma nb) \<noteq> length (mesh nb)
        then (Inl BooleanIndexShape, h @ [h ! sigma nb])
      else (Inr (length h),
            h @ [overwrite (mesh nb) (Max (set (concat gaps))) (Min (set (concat gaps)))
                   (override_of sigma_gap) (h ! sigma nb)]))"
proof (cases gaps)
  case Nil
  then show ?thesis by (simp add: create_gaps_model_def copy_def)
next
  case (Cons gap rest)
  show ?thesis
  proof (cases "length gap = 2")
    case False
    then show ?thesis using Cons by (simp add: create_gaps_model_def copy_def)
  next
    case len: True
    show ?thesis
    proof (cases "list_all (\<lambda>g. length g = 2) gaps")
      case False
      then have "np_array gaps = Inl InhomogeneousShape"
        using Cons len by (intro np_array_ragged) simp_all
      then show ?thesis using Cons len False by (simp add: create_gaps_model_def copy_def)
    next
      case pairs: True
      have ne: "concat gaps \<noteq> []" using Cons pairs by (intro concat_pairs_nonempty) simp_all
      note arr = np_array_pairs [OF pairs] amax_Max [OF ne] amin_Min [OF ne]
      show ?thesis
      proof (cases "mesh nb = []")
        case True
        have "gaps_loop [] gaps (override_of sigma_gap) (length h) gaps (h @ [h ! sigma nb]) =
            (None, h @ [h ! sigma nb])"
          using pairs by (intro gaps_loop_no_cells [OF arr])
        then show ?thesis using Cons len pairs True
          by (simp add: create_gaps_model_def copy_def override_of_def)
      next
        case cells: False
        show ?thesis
        proof (cases "length (h ! sigma nb) = length (mesh nb)")
          case False
          then show ?thesis using Cons len pairs arr cells
            by (simp add: create_gaps_model_def copy_def setitem_mask_shape)
        next
          case True
          have "gaps_loop (mesh nb) gaps (override_of sigma_gap) (length h) gaps (h @ [h ! sigma nb]) =
              (None, if gaps = [] then h @ [h ! sigma nb]
                 else (h @ [h ! sigma nb])[length h := overwrite (mesh nb) (Max (set (concat gaps)))
                   (Min (set (concat gaps))) (override_of sigma_gap) ((h @ [h ! sigma nb]) ! length h)])"
            using pairs True by (intro gaps_loop_pairs [OF arr]) simp_all
          then show ?thesis using Cons len pairs True cells
            by (simp add: create_gaps_model_def copy_def override_of_def)
        qed
      qed
    qed
  qed
qed

section \<open>Which samples a call overwrites\<close>

text \<open>
  Claim C1. The claim: the call overrides exactly the casing-wall samples whose depth
  lies in the closed interval of some gap of the sequence, and a casing-wall sample in
  no gap's own interval keeps its base value; in particular the samples strictly between
  two disjoint gaps are unchanged. The docstring of the function says the same: one
  tuple per gap, \<^verbatim>\<open>gaps = [(z0, z1), (z2, z3)]\<close> being a model with two gaps. The loop
  body, however, builds its array from the whole list (\<^verbatim>\<open>gap = np.array(gaps)\<close>), so the
  bounds are the largest and the smallest number of all the gaps. Evaluated on the
  notebook's own example of two gaps, \<^verbatim>\<open>[(-800, -805), (-900, -905)]\<close>, with one casing
  cell at depth \<open>-850\<close>, which lies in neither gap: the returned array holds the
  override \<open>1\<close> for that cell, not its base value \<open>1e-10\<close>.
\<close>

theorem C1_between_two_gaps_overwritten:
  "create_gaps_model \<lparr>mesh = [\<lparr>gridCC_z = -850, ind_casing = True\<rparr>], sigma = 0\<rparr>
     [[-800, -805], [-900, -905]] None [[1 / 10 ^ 10]] = (Inr 1, [[1 / 10 ^ 10], [1]])"
  by (simp add: create_gaps_model_def copy_def np_array_def setitem_mask_def indices_gap_def
      sigma_inside_def)

section \<open>Reversed bounds\<close>

text \<open>
  Claim C2, as amended. The claim: a gap whose first bound is larger than its second
  fails with an error and is not silently swapped. The function takes the bounds with
  \<^verbatim>\<open>.max()\<close> and \<^verbatim>\<open>.min()\<close>, and the notebook's own call passes \<^verbatim>\<open>(-800, -805)\<close>. What
  holds: for every list of pairs given for a conductivity array of the mesh's size the
  call returns an array, and the result is the same when every pair is reversed.
\<close>

theorem C2_bounds_normalised:
  assumes "list_all (\<lambda>g. length g = 2) gaps"
    and "length (h ! sigma nb) = length (mesh nb)"
  shows "(\<exists>a h'. create_gaps_model nb gaps sigma_gap h = (Inr a, h')) \<and>
    create_gaps_model nb (map rev gaps) sigma_gap h = create_gaps_model nb gaps sigma_gap h"
proof
  show "\<exists>a h'. create_gaps_model nb gaps sigma_gap h = (Inr a, h')"
    using assms by (cases gaps) (simp_all add: create_gaps_model_eq)
next
  have "set (concat (map rev gaps)) = set (concat gaps)" by simp
  moreover have "list_all (\<lambda>g. length g = 2) (map rev gaps)"
    using assms(1) by (simp add: list_all_iff)
  moreover have "gaps \<noteq> [] \<Longrightarrow> length (hd (map rev gaps)) = 2 \<and> length (hd gaps) = 2"
    using assms(1) by (cases gaps) simp_all
  ultimately show
    "create_gaps_model nb (map rev gaps) sigma_gap h = create_gaps_model nb gaps sigma_gap h"
    using assms by (simp add: create_gaps_model_eq)
qed

text \<open>The theorem at the notebook's gap \<^verbatim>\<open>(-800, -805)\<close> and a casing cell at depth
  \<open>-802.5\<close>.\<close>

theorem C2_bounds_normalised_witness:
  "list_all (\<lambda>g. length g = 2) [[-800, -805 :: real]] \<and>
   length ([[1 / 10 ^ 10]] ! sigma \<lparr>mesh = [\<lparr>gridCC_z = -8025 / 10, ind_casing = True\<rparr>], sigma = 0\<rparr>) =
     length (mesh \<lparr>mesh = [\<lparr>gridCC_z = -8025 / 10, ind_casing = True\<rparr>], sigma = 0\<rparr>) \<and>
   (\<exists>a h'. create_gaps_model \<lparr>mesh = [\<lparr>gridCC_z = -8025 / 10, ind_casing = True\<rparr>], sigma = 0\<rparr>
      [[-800, -805]] None [[1 / 10 ^ 10]] = (Inr a, h')) \<and>
   create_gaps_model \<lparr>mesh = [\<lparr>gridCC_z = -8025 / 10, ind_casing = True\<rparr>], sigma = 0\<rparr>
      (map rev [[-800, -805]]) None [[1 / 10 ^ 10]] =
   create_gaps_model \<lparr>mesh = [\<lparr>gridCC_z = -8025 / 10, ind_casing = True\<rparr>], sigma = 0\<rparr>
      [[-800, -805]] None [[1 / 10 ^ 10]]"
proof -
  have pairs: "list_all (\<lambda>g. length g = 2) [[-800, -805 :: real]]" by simp
  have shape: "length ([[1 / 10 ^ 10]] !
      sigma \<lparr>mesh = [\<lparr>gridCC_z = -8025 / 10, ind_casing = True\<rparr>], sigma = 0\<rparr>) =
    length (mesh \<lparr>mesh = [\<lparr>gridCC_z = -8025 / 10, ind_casing = True\<rparr>], sigma = 0\<rparr>)"
    by simp
  show ?thesis
    using pairs shape C2_bounds_normalised [OF pairs shape, of None] by blast
qed

text \<open>The claim as stated fails at the notebook's own input: the gap \<^verbatim>\<open>(-800, -805)\<close>
  has its bounds reversed, and the call returns an array in which the casing cell at
  depth \<open>-802.5\<close> holds the override.\<close>

theorem C2_reversed_gap_accepted:
  "create_gaps_model \<lparr>mesh = [\<lparr>gridCC_z = -8025 / 10, ind_casing = True\<rparr>], sigma = 0\<rparr>
     [[-800, -805]] None [[1 / 10 ^ 10]] = (Inr 1, [[1 / 10 ^ 10], [1]])"
  by (simp add: create_gaps_model_def copy_def np_array_def setitem_mask_def indices_gap_def
      sigma_inside_def)

section \<open>Overlapping gaps\<close>

text \<open>
  Claim C3, as amended. The claim: of two overlapping gaps with different override
  conductivities the later one wins. A gap of the function is a pair of depths and
  carries no conductivity; the one \<^verbatim>\<open>sigma_gap\<close> of the call is written for every gap.
  What holds: a casing cell whose depth lies in the intervals of both of two gaps ends
  with the call's \<^verbatim>\<open>sigma_gap\<close>, in whichever order the two gaps are given.
\<close>

theorem C3_overlap_single_override:
  assumes "length (h ! sigma nb) = length (mesh nb)" and "i < length (mesh nb)"
    and "ind_casing (mesh nb ! i)"
    and "min a b \<le> gridCC_z (mesh nb ! i)" and "gridCC_z (mesh nb ! i) \<le> max a b"
    and "min c d \<le> gridCC_z (mesh nb ! i)" and "gridCC_z (mesh nb ! i) \<le> max c d"
  shows "\<exists>r h'. create_gaps_model nb [[a, b], [c, d]] sigma_gap h = (Inr r, h') \<and>
    create_gaps_model nb [[c, d], [a, b]] sigma_gap h = (Inr r, h') \<and>
    h' ! r ! i = override_of sigma_gap"
proof -
  let ?z = "gridCC_z (mesh nb ! i)"
  have eq: "set (concat [[c, d], [a, b]]) = set (concat [[a, b], [c, d]])" by auto
  have "Min (set (concat [[a, b], [c, d]])) \<le> min a b"
    by (intro Min_le) (auto simp add: min_def)
  then have lo: "Min (set (concat [[a, b], [c, d]])) \<le> ?z" using assms(4) by simp
  have "max a b \<le> Max (set (concat [[a, b], [c, d]]))"
    by (intro Max_ge) (auto simp add: max_def)
  then have hi: "?z \<le> Max (set (concat [[a, b], [c, d]]))" using assms(5) by simp
  have cells: "mesh nb \<noteq> []" using assms(2) by auto
  show ?thesis
    unfolding create_gaps_model_eq eq using assms(1-3) lo hi cells
    by (simp add: overwrite_nth)
qed

text \<open>The theorem at the two gaps of the scenario, a casing cell at depth \<open>-802\<close> and
  \<^verbatim>\<open>sigma_gap = 2\<close>.\<close>

theorem C3_overlap_single_override_witness:
  "\<exists>r h'. create_gaps_model \<lparr>mesh = [\<lparr>gridCC_z = -802, ind_casing = True\<rparr>], sigma = 0\<rparr>
      [[-810, -795], [-805, -800]] (Some 2) [[1 / 10 ^ 10]] = (Inr r, h') \<and>
    create_gaps_model \<lparr>mesh = [\<lparr>gridCC_z = -802, ind_casing = True\<rparr>], sigma = 0\<rparr>
      [[-805, -800], [-810, -795]] (Some 2) [[1 / 10 ^ 10]] = (Inr r, h') \<and>
    h' ! r ! 0 = 2"
  using C3_overlap_single_override [of "[[1 / 10 ^ 10]]"
      "\<lparr>mesh = [\<lparr>gridCC_z = -802, ind_casing = True\<rparr>], sigma = 0\<rparr>" 0 "-810" "-795" "-805" "-800"
      "Some 2"]
  by (simp add: override_of_def)

text \<open>The claim as stated fails on the scenario of the specification. Given as
  triples, the first entry is rejected by the length check; given as pairs, the cell at
  depth \<open>-802\<close> ends with the default override \<open>1\<close>, not with \<open>2\<close>.\<close>

theorem C3_no_per_gap_override:
  "fst (create_gaps_model \<lparr>mesh = [\<lparr>gridCC_z = -802, ind_casing = True\<rparr>], sigma = 0\<rparr>
     [[-810, -795, 1], [-805, -800, 2]] None [[1 / 10 ^ 10]]) = Inl (GapLength [-810, -795, 1]) \<and>
   create_gaps_model \<lparr>mesh = [\<lparr>gridCC_z = -802, ind_casing = True\<rparr>], sigma = 0\<rparr>
     [[-810, -795], [-805, -800]] None [[1 / 10 ^ 10]] = (Inr 1, [[1 / 10 ^ 10], [1]])"
  by (simp add: create_gaps_model_def copy_def np_array_def setitem_mask_def indices_gap_def
      sigma_inside_def)

section \<open>Samples outside the casing wall\<close>

text \<open>
  Claim C4. Whatever the gaps, a sample that the casing mask does not select (air,
  casing interior or background) has in the returned array the value it has in the base
  array, also when its depth lies inside a gap: the mask written is the conjunction of
  \<^verbatim>\<open>model.ind_casing(mesh)\<close> with the depth test.
\<close>

theorem C4_non_casing_unchanged:
  assumes "create_gaps_model nb gaps sigma_gap h = (Inr a, h')"
    and "i < length (mesh nb)" and "\<not> ind_casing (mesh nb ! i)"
  shows "h' ! a ! i = h ! sigma nb ! i"
  using assms by (auto simp add: create_gaps_model_eq overwrite_nth split: if_splits)

text \<open>The theorem at a background cell and a casing cell, both at depth \<open>-802.5\<close> inside
  the gap \<^verbatim>\<open>(-800, -805)\<close>: the background cell keeps \<open>0.01\<close>.\<close>

theorem C4_non_casing_unchanged_witness:
  "create_gaps_model
     \<lparr>mesh = [\<lparr>gridCC_z = -8025 / 10, ind_casing = False\<rparr>, \<lparr>gridCC_z = -8025 / 10, ind_casing = True\<rparr>],
      sigma = 0\<rparr>
     [[-800, -805]] None [[1 / 100, 1 / 10 ^ 10]] = (Inr 1, [[1 / 100, 1 / 10 ^ 10], [1 / 100, 1]]) \<and>
   [[1 / 100, 1 / 10 ^ 10], [1 / 100, 1 :: real]] ! 1 ! 0 = 1 / 100"
proof -
  have run: "create_gaps_model
     \<lparr>mesh = [\<lparr>gridCC_z = -8025 / 10, ind_casing = False\<rparr>, \<lparr>gridCC_z = -8025 / 10, ind_casing = True\<rparr>],
      sigma = 0\<rparr>
     [[-800, -805]] None [[1 / 100, 1 / 10 ^ 10]] = (Inr 1, [[1 / 100, 1 / 10 ^ 10], [1 / 100, 1]])"
    by (simp add: create_gaps_model_def copy_def np_array_def setitem_mask_def indices_gap_def
        sigma_inside_def)
  show ?thesis
    using run C4_non_casing_unchanged [OF run, of 0] by simp
qed

section \<open>The base array\<close>

text \<open>
  Claim C5. A call works on a copy: whatever it returns or raises, the array that
  \<^verbatim>\<open>sigma\<close> names holds afterwards what it held before, and so does every other array
  that existed before the call. A returned array is a new one, as long as the base
  array, and each of its samples is the base sample of the same index or the override.
\<close>

theorem C5_base_not_mutated:
  assumes "sigma nb < length h" and "create_gaps_model nb gaps sigma_gap h = (r, h')"
  shows "h' ! sigma nb = h ! sigma nb \<and> take (length h) h' = h \<and>
    (case r of
      Inl e \<Rightarrow> True
    | Inr a \<Rightarrow> a \<noteq> sigma nb \<and> length (h' ! a) = length (h ! sigma nb) \<and>
        list_all2 (\<lambda>y x. y = x \<or> y = override_of sigma_gap) (h' ! a) (h ! sigma nb))"
  using assms
  by (auto simp add: create_gaps_model_eq nth_append length_overwrite overwrite_nth
      list_all2_conv_all_nth split: if_splits)

theorem C5_base_not_mutated_witness:
  "create_gaps_model
     \<lparr>mesh = [\<lparr>gridCC_z = -8025 / 10, ind_casing = False\<rparr>, \<lparr>gridCC_z = -8025 / 10, ind_casing = True\<rparr>],
      sigma = 0\<rparr>
     [[-800, -805]] None [[1 / 100, 1 / 10 ^ 10]] = (Inr 1, [[1 / 100, 1 / 10 ^ 10], [1 / 100, 1]]) \<and>
   [[1 / 100, 1 / 10 ^ 10], [1 / 100, 1 :: real]] ! 0 = [[1 / 100, 1 / 10 ^ 10]] ! 0 \<and>
   length ([[1 / 100, 1 / 10 ^ 10], [1 / 100, 1 :: real]] ! 1) = length ([[1 / 100, 1 / 10 ^ 10 :: real]] ! 0)"
proof -
  have live: "sigma \<lparr>mesh = [\<lparr>gridCC_z = -8025 / 10, ind_casing = False\<rparr>,
      \<lparr>gridCC_z = -8025 / 10, ind_casing = True\<rparr>], sigma = 0\<rparr> < length [[1 / 100, 1 / 10 ^ 10 :: real]]"
    by simp
  have run: "create_gaps_model
     \<lparr>mesh = [\<lparr>gridCC_z = -8025 / 10, ind_casing = False\<rparr>, \<lparr>gridCC_z = -8025 / 10, ind_casing = True\<rparr>],
      sigma = 0\<rparr>
     [[-800, -805]] None [[1 / 100, 1 / 10 ^ 10]] = (Inr 1, [[1 / 100, 1 / 10 ^ 10], [1 / 100, 1]])"
    by (simp add: create_gaps_model_def copy_def np_array_def setitem_mask_def indices_gap_def
        sigma_inside_def)
  show ?thesis
    using run C5_base_not_mutated [OF live run] by simp
qed

section \<open>No gaps\<close>

text \<open>
  Claim C6. With the empty list of gaps the loop body never runs: the call returns an
  array equal, element for element, to the base array.
\<close>

theorem C6_empty_gaps_identity:
  "\<exists>a h'. create_gaps_model nb [] sigma_gap h = (Inr a, h') \<and> h' ! a = h ! sigma nb"
  by (simp add: create_gaps_model_eq)

section \<open>A total classification\<close>

text \<open>
  Claim C7. Every point has exactly one region, one of the four; a point with \<open>z > 0\<close>
  is air whatever its radius; and each region is described by one condition with fixed
  inclusive and exclusive bounds (the wall includes its inner radius and excludes its
  outer one, the depth range includes both ends), the background being the points that
  meet none of the other three conditions.
\<close>

theorem C7_region_partition:
  "(\<exists>!reg. region_of g p = reg) \<and>
   region_of g p \<in> {Air, CasingWall, CasingInterior, Background} \<and>
   (0 < pz p \<longrightarrow> region_of g p = Air) \<and>
   (region_of g p = Air \<longleftrightarrow> 0 < pz p) \<and>
   (region_of g p = CasingWall \<longleftrightarrow>
      pz p \<le> 0 \<and> in_depth_range g p \<and>
      casing_inner_radius g \<le> radius p \<and> radius p < casing_outer_radius g) \<and>
   (region_of g p = CasingInterior \<longleftrightarrow>
      pz p \<le> 0 \<and> in_depth_range g p \<and> radius p < casing_inner_radius g) \<and>
   (region_of g p = Background \<longleftrightarrow>
      pz p \<le> 0 \<and>
      \<not> (in_depth_range g p \<and> casing_inner_radius g \<le> radius p \<and> radius p < casing_outer_radius g) \<and>
      \<not> (in_depth_range g p \<and> radius p < casing_inner_radius g))"
proof -
  have "region_of g p \<in> {Air, CasingWall, CasingInterior, Background}"
    by (cases "region_of g p") simp_all
  then show ?thesis
    by (auto simp add: region_of_def)
qed

text \<open>The theorem at the geometry of the scenario (radii \<open>0.04\<close> and \<open>0.05\<close>, depth range
  from \<open>-1000\<close> to \<open>0\<close>) and a point five metres above the surface at the radius of the
  wall.\<close>

theorem C7_region_partition_witness:
  "0 < pz \<lparr>px = 45 / 1000, py = 0, pz = 5\<rparr> \<and>
   region_of \<lparr>casing_inner_radius = 4 / 100, casing_outer_radius = 5 / 100,
       casing_top_z = 0, casing_bottom_z = -1000\<rparr> \<lparr>px = 45 / 1000, py = 0, pz = 5\<rparr> = Air"
  using C7_region_partition [of "\<lparr>casing_inner_radius = 4 / 100, casing_outer_radius = 5 / 100,
       casing_top_z = 0, casing_bottom_z = -1000\<rparr>" "\<lparr>px = 45 / 1000, py = 0, pz = 5\<rparr>"]
  by simp

section \<open>Evaluating twice\<close>

text \<open>
  Claim C8. Classification and the conductivity lookup have no hidden state, and neither
  has the gap function. The region of a point depends on the point only through its
  radius and its depth; the conductivity of a point is one of the four assigned
  scalars, the same for all points of one region. Building the field twice, the second
  time in the store the first evaluation left, gives two equal arrays that hold the
  conductivity of each point in order, and the second evaluation leaves the first array
  as it was. In the same way a second call of \<^verbatim>\<open>create_gaps_model\<close> with the same
  arguments ends as the first did: with the same exception, or with an array equal to
  the one the first call returned, which it leaves as it was.
\<close>

theorem C8_repeated_call_same_result:
  assumes "sigma nb < length h"
    and "create_gaps_model nb gaps sigma_gap h = (r1, h1)"
    and "create_gaps_model nb gaps sigma_gap h1 = (r2, h2)"
    and "build_field g asg points k = (b1, k1)"
    and "build_field g asg points k1 = (b2, k2)"
  shows "(case r1 of
      Inl e \<Rightarrow> r2 = Inl e
    | Inr a1 \<Rightarrow> (\<exists>a2. r2 = Inr a2 \<and> h2 ! a2 = h1 ! a1 \<and> h2 ! a1 = h1 ! a1)) \<and>
    k2 ! b2 = k1 ! b1 \<and> k2 ! b1 = k1 ! b1 \<and> take (length k) k2 = k \<and>
    length (k1 ! b1) = length points \<and>
    (\<forall>i<length points. k1 ! b1 ! i = conductivity g asg (points ! i)) \<and>
    (\<forall>p. conductivity g asg p \<in> {sigma_air asg, sigma_casing asg, sigma_inside_a asg, sigma_back asg}) \<and>
    (\<forall>p q. region_of g q = region_of g p \<longrightarrow> conductivity g asg q = conductivity g asg p) \<and>
    (\<forall>p q. radius q = radius p \<and> pz q = pz p \<longrightarrow> region_of g q = region_of g p)"
proof -
  obtain x where h1: "h1 = h @ [x]"
    using assms(2) by (auto simp add: create_gaps_model_eq split: if_splits)
  then have base: "h1 ! sigma nb = h ! sigma nb"
    using assms(1) by (simp add: nth_append)
  have gaps: "case r1 of
      Inl e \<Rightarrow> r2 = Inl e
    | Inr a1 \<Rightarrow> (\<exists>a2. r2 = Inr a2 \<and> h2 ! a2 = h1 ! a1 \<and> h2 ! a1 = h1 ! a1)"
    using assms(2,3) unfolding create_gaps_model_eq base
    by (auto simp add: nth_append split: if_splits)
  have field: "k2 ! b2 = k1 ! b1 \<and> k2 ! b1 = k1 ! b1 \<and> take (length k) k2 = k \<and>
    length (k1 ! b1) = length points \<and>
    (\<forall>i<length points. k1 ! b1 ! i = conductivity g asg (points ! i))"
    using assms(4,5) by (auto simp add: build_field_def nth_append)
  have scalar: "conductivity g asg p \<in>
      {sigma_air asg, sigma_casing asg, sigma_inside_a asg, sigma_back asg}" for p
    by (cases "region_of g p") (simp_all add: conductivity_def)
  have by_region: "region_of g q = region_of g p \<longrightarrow> conductivity g asg q = conductivity g asg p"
    for p q
    by (simp add: conductivity_def)
  have by_coords: "radius q = radius p \<and> pz q = pz p \<longrightarrow> region_of g q = region_of g p" for p q
    by (simp add: region_of_def in_depth_range_def)
  show ?thesis
    using gaps field scalar by_region by_coords by blast
qed

text \<open>The theorem at the notebook's gap and a casing cell at depth \<open>-802.5\<close>, and at the
  geometry and the assignment of the scenario with one point above the surface and one
  on the axis of the casing at depth \<open>-500\<close>.\<close>

theorem C8_repeated_call_same_result_witness:
  "create_gaps_model \<lparr>mesh = [\<lparr>gridCC_z = -8025 / 10, ind_casing = True\<rparr>], sigma = 0\<rparr>
     [[-800, -805]] None [[1 / 10 ^ 10]] = (Inr 1, [[1 / 10 ^ 10], [1]]) \<and>
   create_gaps_model \<lparr>mesh = [\<lparr>gridCC_z = -8025 / 10, ind_casing = True\<rparr>], sigma = 0\<rparr>
     [[-800, -805]] None [[1 / 10 ^ 10], [1]] = (Inr 2, [[1 / 10 ^ 10], [1], [1]]) \<and>
   [[1 / 10 ^ 10], [1], [1 :: real]] ! 2 = [[1 / 10 ^ 10], [1]] ! 1 \<and>
   [[1 / 10 ^ 10], [1], [1 :: real]] ! 1 = [[1 / 10 ^ 10], [1]] ! 1 \<and>
   build_field
     \<lparr>casing_inner_radius = 4 / 100, casing_outer_radius = 5 / 100, casing_top_z = 0,
       casing_bottom_z = -1000\<rparr>
     \<lparr>sigma_air = 1 / 10 ^ 8, sigma_casing = 1 / 10 ^ 10, sigma_inside_a = 1, sigma_back = 1 / 100\<rparr>
     [\<lparr>px = 0, py = 0, pz = 5\<rparr>, \<lparr>px = 0, py = 0, pz = -500\<rparr>] [] = (0, [[1 / 10 ^ 8, 1]]) \<and>
   build_field
     \<lparr>casing_inner_radius = 4 / 100, casing_outer_radius = 5 / 100, casing_top_z = 0,
       casing_bottom_z = -1000\<rparr>
     \<lparr>sigma_air = 1 / 10 ^ 8, sigma_casing = 1 / 10 ^ 10, sigma_inside_a = 1, sigma_back = 1 / 100\<rparr>
     [\<lparr>px = 0, py = 0, pz = 5\<rparr>, \<lparr>px = 0, py = 0, pz = -500\<rparr>] [[1 / 10 ^ 8, 1]] =
     (1, [[1 / 10 ^ 8, 1], [1 / 10 ^ 8, 1]]) \<and>
   [[1 / 10 ^ 8, 1], [1 / 10 ^ 8, 1 :: real]] ! 1 = [[1 / 10 ^ 8, 1]] ! 0"
proof -
  have live: "sigma \<lparr>mesh = [\<lparr>gridCC_z = -8025 / 10, ind_casing = True\<rparr>], sigma = 0\<rparr>
      < length [[1 / 10 ^ 10 :: real]]"
    by simp
  have run1: "create_gaps_model \<lparr>mesh = [\<lparr>gridCC_z = -8025 / 10, ind_casing = True\<rparr>], sigma = 0\<rparr>
     [[-800, -805]] None [[1 / 10 ^ 10]] = (Inr 1, [[1 / 10 ^ 10], [1]])"
    by (simp add: create_gaps_model_def copy_def np_array_def setitem_mask_def indices_gap_def
        sigma_inside_def)
  have run2: "create_gaps_model \<lparr>mesh = [\<lparr>gridCC_z = -8025 / 10, ind_casing = True\<rparr>], sigma = 0\<rparr>
     [[-800, -805]] None [[1 / 10 ^ 10], [1]] = (Inr 2, [[1 / 10 ^ 10], [1], [1]])"
    by (simp add: create_gaps_model_def copy_def np_array_def setitem_mask_def indices_gap_def
        sigma_inside_def)
  have field1: "build_field
     \<lparr>casing_inner_radius = 4 / 100, casing_outer_radius = 5 / 100, casing_top_z = 0,
       casing_bottom_z = -1000\<rparr>
     \<lparr>sigma_air = 1 / 10 ^ 8, sigma_casing = 1 / 10 ^ 10, sigma_inside_a = 1, sigma_back = 1 / 100\<rparr>
     [\<lparr>px = 0, py = 0, pz = 5\<rparr>, \<lparr>px = 0, py = 0, pz = -500\<rparr>] [] = (0, [[1 / 10 ^ 8, 1]])"
    by (simp add: build_field_def conductivity_def region_of_def radius_def in_depth_range_def)
  have field2: "build_field
     \<lparr>casing_inner_radius = 4 / 100, casing_outer_radius = 5 / 100, casing_top_z = 0,
       casing_bottom_z = -1000\<rparr>
     \<lparr>sigma_air = 1 / 10 ^ 8, sigma_casing = 1 / 10 ^ 10, sigma_inside_a = 1, sigma_back = 1 / 100\<rparr>
     [\<lparr>px = 0, py = 0, pz = 5\<rparr>, \<lparr>px = 0, py = 0, pz = -500\<rparr>] [[1 / 10 ^ 8, 1]] =
     (1, [[1 / 10 ^ 8, 1], [1 / 10 ^ 8, 1]])"
    by (simp add: build_field_def conductivity_def region_of_def radius_def in_depth_range_def)
  show ?thesis
    using run1 run2 field1 field2
      C8_repeated_call_same_result [OF live run1 run2 field1 field2]
    by simp
qed

section \<open>Malformed gaps\<close>

text \<open>
  Claim C9. If some entry of the list of gaps does not have exactly two elements, the
  call ends with an exception: nothing is returned, and the array that \<^verbatim>\<open>sigma\<close> names
  and every other array that existed before the call hold what they held before. The
  exception is the function's own when the malformed entry is the first one; otherwise
  \<^verbatim>\<open>np.array(gaps)\<close> is reached with a ragged list in the first round.
\<close>

theorem C9_malformed_gap_raises:
  assumes "g \<in> set gaps" and "length g \<noteq> 2" and "sigma nb < length h"
  shows "\<exists>e h'. create_gaps_model nb gaps sigma_gap h = (Inl e, h') \<and>
    h' ! sigma nb = h ! sigma nb \<and> take (length h) h' = h"
proof -
  have "gaps \<noteq> []" and "\<not> list_all (\<lambda>g. length g = 2) gaps"
    using assms(1,2) by (auto simp add: list_all_iff)
  then show ?thesis
    using assms(3) by (simp add: create_gaps_model_eq nth_append)
qed

theorem C9_malformed_gap_raises_witness:
  "[-900 :: real] \<in> set [[-800, -805], [-900]] \<and> length [-900 :: real] \<noteq> 2 \<and>
   (\<exists>e h'. create_gaps_model \<lparr>mesh = [\<lparr>gridCC_z = -8025 / 10, ind_casing = True\<rparr>], sigma = 0\<rparr>
      [[-800, -805], [-900]] None [[1 / 10 ^ 10]] = (Inl e, h') \<and>
      h' ! 0 = [1 / 10 ^ 10] \<and> take 1 h' = [[1 / 10 ^ 10]])"
proof -
  have mem: "[-900 :: real] \<in> set [[-800, -805], [-900]]" by simp
  have len: "length [-900 :: real] \<noteq> 2" by simp
  have live: "sigma \<lparr>mesh = [\<lparr>gridCC_z = -8025 / 10, ind_casing = True\<rparr>], sigma = 0\<rparr>
      < length [[1 / 10 ^ 10 :: real]]"
    by simp
  show ?thesis
    using mem len C9_malformed_gap_raises [OF mem len live, of None] by simp
qed

section \<open>One override per call\<close>

text \<open>
  Claim C10. The default of \<^verbatim>\<open>sigma_gap\<close> is \<^verbatim>\<open>sigma_inside\<close>, which is \<open>1\<close>: leaving the
  argument out is the same as passing \<^verbatim>\<open>sigma_inside\<close>. And a call has one override for
  all its gaps: every sample of the returned array is its base value or the call's
  \<^verbatim>\<open>sigma_gap\<close>, and every casing cell whose depth lies in the closed interval of any
  gap of the list holds the call's \<^verbatim>\<open>sigma_gap\<close>.
\<close>

theorem C10_single_override_default:
  "sigma_inside = 1 \<and>
   create_gaps_model nb gaps None h = create_gaps_model nb gaps (Some sigma_inside) h \<and>
   (\<forall>a h' i. create_gaps_model nb gaps (Some v) h = (Inr a, h') \<longrightarrow> i < length (h ! sigma nb) \<longrightarrow>
      h' ! a ! i = h ! sigma nb ! i \<or> h' ! a ! i = v) \<and>
   (\<forall>a h' i z1 z2. create_gaps_model nb gaps (Some v) h = (Inr a, h') \<longrightarrow>
      [z1, z2] \<in> set gaps \<longrightarrow> i < length (mesh nb) \<longrightarrow> ind_casing (mesh nb ! i) \<longrightarrow>
      min z1 z2 \<le> gridCC_z (mesh nb ! i) \<longrightarrow> gridCC_z (mesh nb ! i) \<le> max z1 z2 \<longrightarrow>
      h' ! a ! i = v)"
proof -
  have default: "sigma_inside = 1 \<and>
      create_gaps_model nb gaps None h = create_gaps_model nb gaps (Some sigma_inside) h"
    by (simp add: sigma_inside_def create_gaps_model_eq override_of_def)
  have only: "h' ! a ! i = h ! sigma nb ! i \<or> h' ! a ! i = v"
    if "create_gaps_model nb gaps (Some v) h = (Inr a, h')" and "i < length (h ! sigma nb)"
    for a h' i
    using that
    by (auto simp add: create_gaps_model_eq override_of_def overwrite_nth split: if_splits)
  have written: "h' ! a ! i = v"
    if run: "create_gaps_model nb gaps (Some v) h = (Inr a, h')"
      and gap: "[z1, z2] \<in> set gaps"
      and cell: "i < length (mesh nb)" "ind_casing (mesh nb ! i)"
      and depth: "min z1 z2 \<le> gridCC_z (mesh nb ! i)" "gridCC_z (mesh nb ! i) \<le> max z1 z2"
    for a h' i z1 z2
  proof -
    have lo: "Min (set (concat gaps)) \<le> gridCC_z (mesh nb ! i)"
      by (rule order_trans [OF gaps_Min_le [OF gap] depth(1)])
    have hi: "gridCC_z (mesh nb ! i) \<le> Max (set (concat gaps))"
      by (rule order_trans [OF depth(2) gaps_Max_ge [OF gap]])
    have "gaps \<noteq> []" and "mesh nb \<noteq> []"
      using gap cell(1) by auto
    then show ?thesis
      using run cell lo hi
      by (auto simp add: create_gaps_model_eq override_of_def overwrite_nth split: if_splits)
  qed
  show ?thesis
    using default only written by blast
qed

text \<open>The theorem at two gaps, \<^verbatim>\<open>sigma_gap = 5\<close> and three casing cells: one in each gap
  and one above both.\<close>

theorem C10_single_override_default_witness:
  "create_gaps_model
     \<lparr>mesh = [\<lparr>gridCC_z = -8025 / 10, ind_casing = True\<rparr>, \<lparr>gridCC_z = -9025 / 10, ind_casing = True\<rparr>,
        \<lparr>gridCC_z = -500, ind_casing = True\<rparr>], sigma = 0\<rparr>
     [[-800, -805], [-900, -905]] (Some 5) [[1 / 10 ^ 10, 1 / 10 ^ 10, 1 / 10 ^ 10]] =
     (Inr 1, [[1 / 10 ^ 10, 1 / 10 ^ 10, 1 / 10 ^ 10], [5, 5, 1 / 10 ^ 10]]) \<and>
   [[1 / 10 ^ 10, 1 / 10 ^ 10, 1 / 10 ^ 10], [5, 5, 1 / 10 ^ 10 :: real]] ! 1 ! 1 = 5 \<and>
   create_gaps_model
     \<lparr>mesh = [\<lparr>gridCC_z = -8025 / 10, ind_casing = True\<rparr>, \<lparr>gridCC_z = -9025 / 10, ind_casing = True\<rparr>,
        \<lparr>gridCC_z = -500, ind_casing = True\<rparr>], sigma = 0\<rparr>
     [[-800, -805], [-900, -905]] None [[1 / 10 ^ 10, 1 / 10 ^ 10, 1 / 10 ^ 10]] =
   create_gaps_model
     \<lparr>mesh = [\<lparr>gridCC_z = -8025 / 10, ind_casing = True\<rparr>, \<lparr>gridCC_z = -9025 / 10, ind_casing = True\<rparr>,
        \<lparr>gridCC_z = -500, ind_casing = True\<rparr>], sigma = 0\<rparr>
     [[-800, -805], [-900, -905]] (Some 1) [[1 / 10 ^ 10, 1 / 10 ^ 10, 1 / 10 ^ 10]]"
proof -
  have run: "create_gaps_model
     \<lparr>mesh = [\<lparr>gridCC_z = -8025 / 10, ind_casing = True\<rparr>, \<lparr>gridCC_z = -9025 / 10, ind_casing = True\<rparr>,
        \<lparr>gridCC_z = -500, ind_casing = True\<rparr>], sigma = 0\<rparr>
     [[-800, -805], [-900, -905]] (Some 5) [[1 / 10 ^ 10, 1 / 10 ^ 10, 1 / 10 ^ 10]] =
     (Inr 1, [[1 / 10 ^ 10, 1 / 10 ^ 10, 1 / 10 ^ 10], [5, 5, 1 / 10 ^ 10]])"
    by (simp add: create_gaps_model_def copy_def np_array_def setitem_mask_def indices_gap_def)
  show ?thesis
    using run C10_single_override_default [of
      "\<lparr>mesh = [\<lparr>gridCC_z = -8025 / 10, ind_casing = True\<rparr>, \<lparr>gridCC_z = -9025 / 10, ind_casing = True\<rparr>,
        \<lparr>gridCC_z = -500, ind_casing = True\<rparr>], sigma = 0\<rparr>"
      "[[-800, -805], [-900, -905]]" "[[1 / 10 ^ 10, 1 / 10 ^ 10, 1 / 10 ^ 10]]" 5]
    by simp
qed

end
